theory Spec2Isabelle
  imports Main
begin

section \<open>yare-bun-sync: the session, build and sync orchestration of src/index.ts\<close>

text \<open>
  The program is a command line tool with two commands, \<open>sync\<close> and \<open>logout\<close>. Everything
  it does is an effect on the outside world: it reads and writes files, calls the bundler,
  calls the remote collaborator \<open>yare-sync\<close>, prompts the user and drives a spinner.

  The embedding makes these effects explicit.
  \<^item> \<open>World\<close> holds what the program cannot decide: the environment variables, the
    answers of the collaborators and of the user. The k-th call of \<open>sync.login\<close> and the
    k-th prompt are answered by the oracle at index k.
  \<^item> \<open>State\<close> holds what the program changes: the file system (a map from paths to
    contents), the log of every observable action in the order it happened, and the
    number of login calls and prompts made so far.
  \<^item> An \<open>Outcome\<close> says how an asynchronous function ended: it returned a value, it
    threw (the promise rejected), or it ended the process with \<open>process.exit\<close>.
  \<^item> The interactive login loop has no bound, so it is a partial function into
    \<open>option\<close>: \<open>None\<close> is the run that never leaves the loop.
\<close>

subsection \<open>Data model\<close>

type_synonym path = string

text \<open>\<open>type Session = { user_id: string; session_id: string }\<close> (lines 17-20).\<close>

record Session =
  user_id :: string
  session_id :: string

text \<open>The elements of \<open>games: { server: string; id: string }[]\<close> (line 149).\<close>

record GameTarget =
  server :: string
  id_game :: string

text \<open>\<open>type SyncOptions\<close> (lines 97-103).\<close>

record SyncOptions =
  watch :: bool
  watchDir :: string
  noMinify :: bool
  file_opt :: string
  env :: string

text \<open>
  The exceptions the model distinguishes: a JSON text that does not parse, a property
  read on \<open>undefined\<close>, a file that does not exist, and whatever a collaborator throws.
\<close>

datatype Error = SyntaxError | TypeError | ENOENT | External string

datatype 'a Outcome = Returned 'a | Threw Error | Exited nat

text \<open>A spinner (\<open>Ora\<close>) is known by the text it was created with.\<close>

type_synonym Ora = string

datatype Event =
    SpinnerStart string
  | SpinnerSucceed string
  | SpinnerFail string
  | SpinnerWarn string
  | SpinnerClear
  | ConsoleError "Error option"
  | BuildCall path bool
  | PromptShown string
  | SelectionShown
  | LoginCall string string
  | GetGamesCall string
  | SendCodeCall string "GameTarget list" Session
  | FileWrite path string
  | FileAppend path string
  | FileUnlink path

text \<open>
  What the program is given. Each field stands for one thing the source uses and does not
  define.
  \<^item> \<open>YARE_LOGIN\<close>, \<open>YARE_PASSWORD\<close>: the two values of \<open>Bun.env\<close>, \<open>None\<close> when unset.
  \<^item> \<open>os_tmpdir\<close>, \<open>path_join\<close>, \<open>path_resolve\<close>: \<open>os.tmpdir()\<close>, \<open>path.join\<close>,
    \<open>path.resolve\<close>.
  \<^item> \<open>chalk style s\<close>: the text \<open>s\<close> as \<open>chalk\<close> styles it, for example
    \<open>chalk.red.bold(s)\<close> for the style \<open>red.bold\<close>.
  \<^item> \<open>file_json\<close>: \<open>Bun.file(p).json()\<close> on the contents of a file. It throws when the
    contents do not parse; what it parses is taken at the type \<open>getExistingSession\<close>
    declares for it, a \<open>Session\<close>.
  \<^item> \<open>JSON_stringify\<close>: \<open>JSON.stringify\<close> on a session.
  \<^item> \<open>sync_verifySession\<close>: the truth value the \<open>if\<close> of line 26 takes from
    \<open>sync.verifySession(session)\<close>.
  \<^item> \<open>sync_login k\<close>: the answer to call number \<open>k\<close> of \<open>sync.login\<close>. The call throws or
    resolves to a session, as the return type of \<open>login\<close>, \<open>Promise<Session>\<close>, has it.
  \<^item> \<open>sync_getGames\<close>, \<open>sync_sendCode\<close>: the answers of \<open>sync.getGames\<close> and
    \<open>sync.sendCode\<close>, which may throw as any network call may.
  \<^item> \<open>Bun_build\<close>: from the entrypoint, the \<open>minify\<close> flag and the file system, what
    \<open>Bun.build\<close> throws or the paths of the \<open>outputs\<close> it returns, with the file system
    as the bundler left it.
  \<^item> \<open>createPrompt k\<close>: the \<open>value\<close> typed at prompt number \<open>k\<close>; \<open>createSelection\<close>: the
    \<open>selectedIndex\<close> of the selection.
  \<^item> \<open>appendFileSync_throws p\<close>: the exception \<open>fs.appendFileSync\<close> throws on the path
    \<open>p\<close>, if any: its directory is missing (\<open>ENOENT\<close>), it is a directory, it may not be
    written. The map of files knows no directories and no permissions, so the world says
    which paths cannot be appended to.
\<close>

record World =
  YARE_LOGIN :: "string option"
  YARE_PASSWORD :: "string option"
  os_tmpdir :: path
  path_join :: "path \<Rightarrow> path \<Rightarrow> path"
  path_resolve :: "path \<Rightarrow> path \<Rightarrow> path"
  chalk :: "string \<Rightarrow> string \<Rightarrow> string"
  file_json :: "string \<Rightarrow> Error + Session"
  JSON_stringify :: "Session \<Rightarrow> string"
  sync_verifySession :: "Session \<Rightarrow> bool"
  sync_login :: "nat \<Rightarrow> string \<Rightarrow> string \<Rightarrow> Error + Session"
  sync_getGames :: "string \<Rightarrow> Error + GameTarget list"
  sync_sendCode :: "string \<Rightarrow> GameTarget list \<Rightarrow> Session \<Rightarrow> Error + bool"
  Bun_build :: "path \<Rightarrow> bool \<Rightarrow> (path \<rightharpoonup> string) \<Rightarrow> (Error + path list) \<times> (path \<rightharpoonup> string)"
  createPrompt :: "nat \<Rightarrow> string \<Rightarrow> string"
  createSelection :: nat
  appendFileSync_throws :: "path \<Rightarrow> Error option"

text \<open>What the program changes, and the log of what it did.\<close>

record State =
  files :: "path \<rightharpoonup> string"
  trace :: "Event list"
  loginCalls :: nat
  promptCalls :: nat

subsection \<open>Helpers\<close>

definition emit :: "Event list \<Rightarrow> State \<Rightarrow> State" where
  "emit evs st = st\<lparr>trace := trace st @ evs\<rparr>"

text \<open>\<open>spinner?.m(...)\<close>: nothing happens when the spinner is \<open>null\<close>.\<close>

definition spin :: "Ora option \<Rightarrow> Event \<Rightarrow> State \<Rightarrow> State" where
  "spin spinner ev st = (case spinner of None \<Rightarrow> st | Some _ \<Rightarrow> emit [ev] st)"

text \<open>The events of a run from \<open>st\<close> to \<open>st'\<close>: what the run added to the log.\<close>

definition emitted :: "State \<Rightarrow> State \<Rightarrow> Event list" where
  "emitted st st' = drop (length (trace st)) (trace st')"

text \<open>
  \<open>!v\<close> for a value of \<open>Bun.env\<close>: an unset variable (\<open>undefined\<close>) and the empty string
  are both falsy.
\<close>

definition falsy :: "string option \<Rightarrow> bool" where
  "falsy v = (case v of None \<Rightarrow> True | Some s \<Rightarrow> s = [])"

definition env_string :: "string option \<Rightarrow> string" where
  "env_string v = (case v of None \<Rightarrow> [] | Some s \<Rightarrow> s)"

text \<open>\<open>Array.prototype.join\<close> on strings.\<close>

fun join :: "string \<Rightarrow> string list \<Rightarrow> string" where
  "join sep [] = []"
| "join sep [x] = x"
| "join sep (x # y # ys) = x @ sep @ join sep (y # ys)"

subsection \<open>SessionStore\<close>

text \<open>Line 15.\<close>

definition SESSION_FILE_PATH :: "World \<Rightarrow> path" where
  "SESSION_FILE_PATH w = path_join w (os_tmpdir w) ''yare-sync-last-session.json''"

text \<open>
  \<open>getExistingSession\<close> (lines 22-32). \<open>file.json()\<close> is not guarded: when the contents
  do not parse, its exception leaves the function.
\<close>

definition getExistingSession :: "World \<Rightarrow> State \<Rightarrow> Session option Outcome" where
  "getExistingSession w st =
     (case files st (SESSION_FILE_PATH w) of
        None \<Rightarrow> Returned None
      | Some contents \<Rightarrow>
          (case file_json w contents of
             Inl e \<Rightarrow> Threw e
           | Inr session \<Rightarrow>
               if sync_verifySession w session then Returned (Some session)
               else Returned None))"

text \<open>\<open>saveSession\<close> (lines 94-95).\<close>

definition saveSession :: "World \<Rightarrow> Session \<Rightarrow> State \<Rightarrow> State" where
  "saveSession w session st =
     emit [FileWrite (SESSION_FILE_PATH w) (JSON_stringify w session)]
       (st\<lparr>files := (files st)(SESSION_FILE_PATH w \<mapsto> JSON_stringify w session)\<rparr>)"

text \<open>
  \<open>fs.appendFileSync\<close>: throws when the path cannot be appended to, and otherwise
  creates the file when it does not exist.
\<close>

definition appendFileSync :: "World \<Rightarrow> path \<Rightarrow> string \<Rightarrow> State \<Rightarrow> Error + State" where
  "appendFileSync w p txt st =
     (case appendFileSync_throws w p of
        Some e \<Rightarrow> Inl e
      | None \<Rightarrow>
          Inr (emit [FileAppend p txt]
                 (st\<lparr>files := (files st)(p \<mapsto> (case files st p of
                                                   None \<Rightarrow> txt
                                                 | Some old \<Rightarrow> old @ txt))\<rparr>)))"

text \<open>\<open>fs.unlinkSync\<close>: throws when the file does not exist.\<close>

definition unlinkSync :: "path \<Rightarrow> State \<Rightarrow> Error + State" where
  "unlinkSync p st =
     (case files st p of
        None \<Rightarrow> Inl ENOENT
      | Some _ \<Rightarrow> Inr (emit [FileUnlink p] (st\<lparr>files := (files st)(p := None)\<rparr>)))"

text \<open>The action of the \<open>logout\<close> command (lines 208-213).\<close>

definition logout :: "World \<Rightarrow> State \<Rightarrow> unit Outcome \<times> State" where
  "logout w st =
     (let st1 = emit [SpinnerStart ''Logging out''] st in
      case unlinkSync (SESSION_FILE_PATH w) st1 of
        Inl e \<Rightarrow> (Threw e, st1)
      | Inr st2 \<Rightarrow> (Returned (), emit [SpinnerSucceed ''Logged out''] st2))"

subsection \<open>Authenticator\<close>

text \<open>One call of \<open>sync.login\<close>: the oracle answers by the number of the call.\<close>

definition callLogin :: "World \<Rightarrow> string \<Rightarrow> string \<Rightarrow> State \<Rightarrow> (Error + Session) \<times> State" where
  "callLogin w username password st =
     (sync_login w (loginCalls st) username password,
      emit [LoginCall username password] (st\<lparr>loginCalls := loginCalls st + 1\<rparr>))"

text \<open>One call of \<open>createPrompt\<close>.\<close>

definition prompt :: "World \<Rightarrow> string \<Rightarrow> State \<Rightarrow> string \<times> State" where
  "prompt w label st =
     (createPrompt w (promptCalls st) label,
      emit [PromptShown label] (st\<lparr>promptCalls := promptCalls st + 1\<rparr>))"

text \<open>\<open>getCreds\<close> (lines 43-52).\<close>

definition getCreds :: "World \<Rightarrow> State \<Rightarrow> (string \<times> string) \<times> State" where
  "getCreds w st =
     (case prompt w ''Yare Username: '' st of
        (username, st1) \<Rightarrow>
          (case prompt w ''Password: '' st1 of
             (password, st2) \<Rightarrow> ((username, password), st2)))"

text \<open>
  The loop \<open>while (!session)\<close> (lines 54-65). \<open>sync.login\<close> resolves to a \<open>Session\<close>
  object, which is truthy, so the loop ends at the first call that does not throw.
\<close>

partial_function (option) loginLoop ::
  "World \<Rightarrow> Ora option \<Rightarrow> State \<Rightarrow> ((string \<times> string \<times> Session) \<times> State) option" where
  "loginLoop w spinner st =
     (case getCreds w st of
        ((username, password), st1) \<Rightarrow>
          (case callLogin w username password st1 of
             (Inr session, st2) \<Rightarrow> Some ((username, password, session), st2)
           | (Inl e, st2) \<Rightarrow>
               loginLoop w spinner
                 (spin spinner (SpinnerFail ''Error logging in. Try again.'')
                    (emit [ConsoleError None] st2))))"

text \<open>The text appended to the env file (lines 80-82).\<close>

definition credsText :: "string \<Rightarrow> string \<Rightarrow> string" where
  "credsText username password =
     ''# Yare Credentials\<newline>YARE_LOGIN='' @ username @ ''\<newline>YARE_PASSWORD='' @ password"

text \<open>
  Lines 66-86 of \<open>login\<close>, after the loop: offer to save the credentials, append them to
  the env file on Yes, then save the session. \<open>fs.appendFileSync\<close> is not guarded: when it
  throws, its exception leaves \<open>login\<close> and \<open>saveSession\<close> is not reached.
\<close>

definition finishLogin ::
  "World \<Rightarrow> path \<Rightarrow> Ora option \<Rightarrow> string \<Rightarrow> string \<Rightarrow> Session \<Rightarrow> State \<Rightarrow> Session Outcome \<times> State" where
  "finishLogin w envFilePath spinner username password session st1 =
     (let st2 = emit [SelectionShown] (spin spinner SpinnerClear st1);
          saveCreds = (createSelection w = 0)
      in if saveCreds then
           (case appendFileSync w (path_resolve w ''.'' envFilePath)
                   (credsText username password) st2 of
              Inl e \<Rightarrow> (Threw e, st2)
            | Inr st3 \<Rightarrow> (Returned session, saveSession w session st3))
         else (Returned session, saveSession w session st2))"

text \<open>\<open>login\<close> (lines 34-92).\<close>

definition login :: "World \<Rightarrow> path \<Rightarrow> Ora option \<Rightarrow> State \<Rightarrow> (Session Outcome \<times> State) option" where
  "login w envFilePath spinner st =
     (if falsy (YARE_LOGIN w) \<or> falsy (YARE_PASSWORD w) then
        (case loginLoop w spinner
                (spin spinner (SpinnerWarn ''Couldn't find login credentials.'') st) of
           None \<Rightarrow> None
         | Some ((username, password, session), st1) \<Rightarrow>
             Some (finishLogin w envFilePath spinner username password session st1))
      else
        (case callLogin w (env_string (YARE_LOGIN w)) (env_string (YARE_PASSWORD w)) st of
           (Inl e, st1) \<Rightarrow> Some (Threw e, st1)
         | (Inr session, st1) \<Rightarrow> Some (Returned session, saveSession w session st1)))"

subsection \<open>SyncEngine\<close>

text \<open>
  The \<open>try\<close> block of \<open>buildAndSync\<close> (lines 120-127): the bundler may throw, and
  \<open>outputs[0].path\<close> throws a \<open>TypeError\<close> when \<open>outputs\<close> is empty. The bundler writes
  its artifacts itself, so it hands back the file system as it left it.
\<close>

definition buildStage :: "World \<Rightarrow> SyncOptions \<Rightarrow> State \<Rightarrow> (Error + path) \<times> State" where
  "buildStage w opts st =
     (case Bun_build w (file_opt opts) (\<not> noMinify opts) (files st) of
        (res, fs') \<Rightarrow>
          (let st1 = emit [BuildCall (file_opt opts) (\<not> noMinify opts)] (st\<lparr>files := fs'\<rparr>) in
           case res of
             Inl e \<Rightarrow> (Inl e, st1)
           | Inr outputs \<Rightarrow>
               (case outputs of
                  [] \<Rightarrow> (Inl TypeError, st1)
                | out # _ \<Rightarrow> (Inr out, st1))))"

text \<open>The message of a successful upload (lines 163-164).\<close>

definition uploadedMessage :: "GameTarget list \<Rightarrow> string" where
  "uploadedMessage games =
     ''Uploaded your code to these games: '' @
     join '', '' (map (\<lambda>g. server g @ ''/'' @ id_game g) games)"

text \<open>
  Lines 145-169: report the identity, list the games, upload. \<open>distFile.text()\<close> is
  evaluated before \<open>sync.sendCode\<close> is called and throws when the artifact is not there.
\<close>

definition syncStage :: "World \<Rightarrow> path \<Rightarrow> Session \<Rightarrow> State \<Rightarrow> unit Outcome \<times> State" where
  "syncStage w distFile session st =
     (let st1 = emit [SpinnerSucceed (''Logged in as '' @ chalk w ''green.bold'' (user_id session)),
                      SpinnerStart ''Syncing'',
                      GetGamesCall (user_id session)] st in
      case sync_getGames w (user_id session) of
        Inl e \<Rightarrow> (Threw e, st1)
      | Inr games \<Rightarrow>
          if games = [] then (Returned (), emit [SpinnerWarn ''No current games.''] st1)
          else
            (case files st1 distFile of
               None \<Rightarrow> (Threw ENOENT, st1)
             | Some text \<Rightarrow>
                 (let st2 = emit [SendCodeCall text games session] st1 in
                  case sync_sendCode w text games session of
                    Inl e \<Rightarrow> (Threw e, st2)
                  | Inr successful \<Rightarrow>
                      if successful
                      then (Returned (), emit [SpinnerSucceed (uploadedMessage games)] st2)
                      else (Returned (), emit [SpinnerFail ''Upload to yare failed.''] st2))))"

text \<open>Lines 136-144: reuse the session on disk, or log in.\<close>

definition authStage :: "World \<Rightarrow> SyncOptions \<Rightarrow> State \<Rightarrow> (Session Outcome \<times> State) option" where
  "authStage w opts st =
     (let st1 = emit [SpinnerStart ''Logging In''] st in
      case getExistingSession w st1 of
        Threw e \<Rightarrow> Some (Threw e, st1)
      | Exited c \<Rightarrow> Some (Exited c, st1)
      | Returned (Some session) \<Rightarrow> Some (Returned session, st1)
      | Returned None \<Rightarrow> login w (env opts) (Some ''Logging In'') (emit [SpinnerClear] st1))"

text \<open>\<open>buildAndSync\<close> (lines 105-170).\<close>

definition buildAndSync :: "World \<Rightarrow> SyncOptions \<Rightarrow> State \<Rightarrow> (unit Outcome \<times> State) option" where
  "buildAndSync w opts st =
     (let st1 = emit [SpinnerStart ''Building''] st in
      if files st1 (file_opt opts) = None then
        Some (Exited 9,
              emit [SpinnerFail (chalk w ''red.bold'' ''Build failed:'' @
                                 '' Could not find entrypoint '' @
                                 chalk w ''bold'' (file_opt opts) @ ''.'')] st1)
      else
        (case buildStage w opts st1 of
           (Inl e, st2) \<Rightarrow>
             Some (Exited 1,
                   emit [SpinnerFail (chalk w ''red.bold'' ''Build failed:'' @ '' Unexpected error''),
                         ConsoleError (Some e)] st2)
         | (Inr distFile, st2) \<Rightarrow>
             (case authStage w opts (emit [SpinnerSucceed ''Built''] st2) of
                None \<Rightarrow> None
              | Some (Threw e, st3) \<Rightarrow> Some (Threw e, st3)
              | Some (Exited c, st3) \<Rightarrow> Some (Exited c, st3)
              | Some (Returned session, st3) \<Rightarrow> Some (syncStage w distFile session st3))))"

subsection \<open>Vocabulary of the properties\<close>

text \<open>Classes of events.\<close>

fun isSendCode :: "Event \<Rightarrow> bool" where
  "isSendCode (SendCodeCall _ _ _) = True"
| "isSendCode _ = False"

fun isLoginCall :: "Event \<Rightarrow> bool" where
  "isLoginCall (LoginCall _ _) = True"
| "isLoginCall _ = False"

fun isFileWrite :: "Event \<Rightarrow> bool" where
  "isFileWrite (FileWrite _ _) = True"
| "isFileWrite _ = False"

text \<open>The events one round of the login loop can add to the log.\<close>

fun loopEvent :: "Event \<Rightarrow> bool" where
  "loopEvent (PromptShown _) = True"
| "loopEvent (LoginCall _ _) = True"
| "loopEvent (ConsoleError _) = True"
| "loopEvent (SpinnerFail _) = True"
| "loopEvent _ = False"

text \<open>The events authentication can add to the log: no build, no game list, no upload.\<close>

fun authEvent :: "Event \<Rightarrow> bool" where
  "authEvent (BuildCall _ _) = False"
| "authEvent (GetGamesCall _) = False"
| "authEvent (SendCodeCall _ _ _) = False"
| "authEvent (FileUnlink _) = False"
| "authEvent _ = True"

text \<open>
  An event that fits a cycle running on session \<open>s\<close> without logging in: the games are
  asked for the user of \<open>s\<close>, the code is sent with \<open>s\<close>, and there is no prompt, no
  login call and no write.
\<close>

fun usesSession :: "Session \<Rightarrow> Event \<Rightarrow> bool" where
  "usesSession s (GetGamesCall uid) = (uid = user_id s)"
| "usesSession s (SendCodeCall _ _ s') = (s' = s)"
| "usesSession s (LoginCall _ _) = False"
| "usesSession s (PromptShown _) = False"
| "usesSession s SelectionShown = False"
| "usesSession s (FileWrite _ _) = False"
| "usesSession s (FileAppend _ _) = False"
| "usesSession s _ = True"

text \<open>
  The exception the \<open>try\<close> block of \<open>buildAndSync\<close> raises when the cycle starts in
  \<open>st\<close>, if any: what the bundler throws, or the \<open>TypeError\<close> of \<open>outputs[0].path\<close> on
  an empty list.
\<close>

definition buildError :: "World \<Rightarrow> SyncOptions \<Rightarrow> State \<Rightarrow> Error option" where
  "buildError w opts st =
     (case fst (Bun_build w (file_opt opts) (\<not> noMinify opts) (files st)) of
        Inl e \<Rightarrow> Some e
      | Inr outputs \<Rightarrow> (case outputs of [] \<Rightarrow> Some TypeError | out # _ \<Rightarrow> None))"

text \<open>The build stage completes without error: the entrypoint is there and nothing is thrown.\<close>

definition buildCompletes :: "World \<Rightarrow> SyncOptions \<Rightarrow> State \<Rightarrow> bool" where
  "buildCompletes w opts st =
     (files st (file_opt opts) \<noteq> None \<and> buildError w opts st = None)"

text \<open>What a cycle logs up to the end of a build that completes.\<close>

definition builtEvents :: "SyncOptions \<Rightarrow> Event list" where
  "builtEvents opts =
     [SpinnerStart ''Building'', BuildCall (file_opt opts) (\<not> noMinify opts),
      SpinnerSucceed ''Built'']"

text \<open>The state in which authentication starts, in a cycle from \<open>st\<close> whose build completes.\<close>

definition afterBuild :: "World \<Rightarrow> SyncOptions \<Rightarrow> State \<Rightarrow> State" where
  "afterBuild w opts st =
     emit [SpinnerSucceed ''Built'']
       (snd (buildStage w opts (emit [SpinnerStart ''Building''] st)))"

text \<open>
  The answer of \<open>sync.login\<close> to round \<open>i\<close> (counted from 0) of a login loop entered in
  \<open>st\<close>: each round shows two prompts and makes one login call.
\<close>

definition attemptAt :: "World \<Rightarrow> State \<Rightarrow> nat \<Rightarrow> Error + Session" where
  "attemptAt w st i =
     sync_login w (loginCalls st + i)
       (createPrompt w (promptCalls st + 2 * i) ''Yare Username: '')
       (createPrompt w (promptCalls st + 2 * i + 1) ''Password: '')"

text \<open>
  The exception that keeps \<open>login\<close> from saving the session on its interactive path, if
  any: the user chose to save the credentials and the env file cannot be appended to.
\<close>

definition appendFails :: "World \<Rightarrow> path \<Rightarrow> Error option" where
  "appendFails w envFilePath =
     (if createSelection w = 0 then appendFileSync_throws w (path_resolve w ''.'' envFilePath)
      else None)"

text \<open>The state after the prompts and the login call of one round, and after a failed round.\<close>

definition afterCall :: "World \<Rightarrow> State \<Rightarrow> State" where
  "afterCall w st = snd (case getCreds w st of ((u, p), st1) \<Rightarrow> callLogin w u p st1)"

definition afterFail :: "World \<Rightarrow> Ora option \<Rightarrow> State \<Rightarrow> State" where
  "afterFail w sp st =
     spin sp (SpinnerFail ''Error logging in. Try again.'')
       (emit [ConsoleError None] (afterCall w st))"

subsection \<open>A concrete world\<close>

text \<open>
  The scenarios of the specification, as inputs: user \<open>alice\<close> with password \<open>secret\<close>, two
  current games \<open>a/1\<close> and \<open>b/2\<close>, a bundler that writes \<open>./dist/index.js\<close>. The example
  parser knows the text of two sessions, a valid one and an expired one; any other text
  is not JSON for it. The prompts answer \<open>alice\<close> and a wrong password twice, then the
  right one.
\<close>

definition exSession :: Session where
  "exSession = \<lparr>user_id = ''alice'', session_id = ''s1''\<rparr>"

definition exExpired :: Session where
  "exExpired = \<lparr>user_id = ''alice'', session_id = ''s0''\<rparr>"

definition exGames :: "GameTarget list" where
  "exGames = [\<lparr>server = ''a'', id_game = ''1''\<rparr>, \<lparr>server = ''b'', id_game = ''2''\<rparr>]"

definition exStringify :: "Session \<Rightarrow> string" where
  \<open>exStringify s = ''{"user_id":"'' @ user_id s @ ''","session_id":"'' @ session_id s @ ''"}''\<close>

definition exWorld :: World where
  "exWorld =
     \<lparr>YARE_LOGIN = Some ''alice'', YARE_PASSWORD = Some ''secret'',
      os_tmpdir = ''/tmp'',
      path_join = (\<lambda>a b. a @ ''/'' @ b),
      path_resolve = (\<lambda>a b. a @ ''/'' @ b),
      chalk = (\<lambda>style s. s),
      file_json = (\<lambda>txt. if txt = exStringify exSession then Inr exSession
                          else if txt = exStringify exExpired then Inr exExpired
                          else Inl SyntaxError),
      JSON_stringify = exStringify,
      sync_verifySession = (\<lambda>s. session_id s = ''s1''),
      sync_login = (\<lambda>k u p. if p = ''secret'' then Inr \<lparr>user_id = u, session_id = ''s1''\<rparr>
                              else Inl (External ''bad credentials'')),
      sync_getGames = (\<lambda>uid. Inr exGames),
      sync_sendCode = (\<lambda>text games s. Inr True),
      Bun_build = (\<lambda>entry minify fs.
                     (Inr [''./dist/index.js''], fs(''./dist/index.js'' \<mapsto> ''bundle''))),
      createPrompt = (\<lambda>k label. if label = ''Password: ''
                                  then (if k < 4 then ''wrong'' else ''secret'')
                                  else ''alice''),
      createSelection = 1,
      appendFileSync_throws = (\<lambda>p. None)\<rparr>"

definition exOpts :: SyncOptions where
  "exOpts = \<lparr>watch = False, watchDir = ''./src'', noMinify = False,
             file_opt = ''src/index.ts'', env = ''.env''\<rparr>"

text \<open>A project with its entrypoint and no session file; the same with a session file.\<close>

definition exState :: State where
  "exState = \<lparr>files = [''src/index.ts'' \<mapsto> ''code''], trace = [], loginCalls = 0, promptCalls = 0\<rparr>"

definition exOnDisk :: "string \<Rightarrow> State" where
  "exOnDisk contents = exState\<lparr>files := (files exState)(SESSION_FILE_PATH exWorld \<mapsto> contents)\<rparr>"

definition exCached :: State where
  "exCached = exOnDisk (exStringify exSession)"

text \<open>Variants: a bundler that throws, one that reports no output, a user without games.\<close>

definition exThrowingBuild :: World where
  "exThrowingBuild = exWorld\<lparr>Bun_build := (\<lambda>entry minify fs. (Inl (External ''bundle failed''), fs))\<rparr>"

definition exNoOutputs :: World where
  "exNoOutputs = exWorld\<lparr>Bun_build := (\<lambda>entry minify fs. (Inr [], fs))\<rparr>"

definition exNoGames :: World where
  "exNoGames = exWorld\<lparr>sync_getGames := (\<lambda>uid. Inr [])\<rparr>"

definition exInteractive :: World where
  "exInteractive = exWorld\<lparr>YARE_LOGIN := None, YARE_PASSWORD := None\<rparr>"

definition exBadPassword :: World where
  "exBadPassword = exWorld\<lparr>YARE_PASSWORD := Some ''wrong''\<rparr>"

text \<open>
  The interactive user who answers Yes to saving the credentials, and the same where the
  directory of the env file \<open>cfg/.env2\<close> does not exist.
\<close>

definition exSaveCreds :: World where
  "exSaveCreds = exInteractive\<lparr>createSelection := 0\<rparr>"

definition exAppendFails :: World where
  "exAppendFails =
     exSaveCreds\<lparr>appendFileSync_throws :=
                   (\<lambda>p. if p = ''./cfg/.env2'' then Some ENOENT else None)\<rparr>"

text \<open>Three current games; one current game and an upload that fails.\<close>

definition exThreeGames :: World where
  "exThreeGames =
     exWorld\<lparr>sync_getGames :=
               (\<lambda>uid. Inr [\<lparr>server = ''a'', id_game = ''1''\<rparr>, \<lparr>server = ''b'', id_game = ''2''\<rparr>,
                          \<lparr>server = ''c'', id_game = ''3''\<rparr>])\<rparr>"

definition exUploadFails :: World where
  "exUploadFails =
     exWorld\<lparr>sync_getGames := (\<lambda>uid. Inr [\<lparr>server = ''a'', id_game = ''1''\<rparr>]),
             sync_sendCode := (\<lambda>text games s. Inr False)\<rparr>"

section \<open>Properties\<close>

subsection \<open>The log and the counters of the helpers\<close>

lemma emit_simps [simp]:
  "files (emit evs st) = files st"
  "trace (emit evs st) = trace st @ evs"
  "loginCalls (emit evs st) = loginCalls st"
  "promptCalls (emit evs st) = promptCalls st"
  by (simp_all add: emit_def)

lemma spin_simps [simp]:
  "files (spin sp ev st) = files st"
  "trace (spin sp ev st) = trace st @ (case sp of None \<Rightarrow> [] | Some _ \<Rightarrow> [ev])"
  "loginCalls (spin sp ev st) = loginCalls st"
  "promptCalls (spin sp ev st) = promptCalls st"
  by (simp_all add: spin_def split: option.splits)

lemma emitted_append [simp]: "trace st' = trace st @ evs \<Longrightarrow> emitted st st' = evs"
  by (simp add: emitted_def)

lemma saveSession_simps [simp]:
  "files (saveSession w s st) = (files st)(SESSION_FILE_PATH w \<mapsto> JSON_stringify w s)"
  "trace (saveSession w s st) = trace st @ [FileWrite (SESSION_FILE_PATH w) (JSON_stringify w s)]"
  "loginCalls (saveSession w s st) = loginCalls st"
  "promptCalls (saveSession w s st) = promptCalls st"
  by (simp_all add: saveSession_def)

lemma appendFileSync_Inr:
  assumes "appendFileSync w p txt st = Inr st'"
  shows "trace st' = trace st @ [FileAppend p txt]"
    and "loginCalls st' = loginCalls st" and "promptCalls st' = promptCalls st"
  using assms by (auto simp: appendFileSync_def split: option.splits)

lemma getCreds_eq:
  "getCreds w st =
     ((createPrompt w (promptCalls st) ''Yare Username: '',
       createPrompt w (Suc (promptCalls st)) ''Password: ''),
      emit [PromptShown ''Yare Username: '', PromptShown ''Password: '']
        (st\<lparr>promptCalls := promptCalls st + 2\<rparr>))"
  by (simp add: getCreds_def prompt_def emit_def)

lemma afterCall_simps [simp]:
  "files (afterCall w st) = files st"
  "loginCalls (afterCall w st) = Suc (loginCalls st)"
  "promptCalls (afterCall w st) = Suc (Suc (promptCalls st))"
  "trace (afterCall w st) = trace st @
     [PromptShown ''Yare Username: '', PromptShown ''Password: '',
      LoginCall (createPrompt w (promptCalls st) ''Yare Username: '')
        (createPrompt w (Suc (promptCalls st)) ''Password: '')]"
  by (simp_all add: afterCall_def getCreds_eq callLogin_def)

lemma afterFail_simps [simp]:
  "files (afterFail w sp st) = files st"
  "loginCalls (afterFail w sp st) = Suc (loginCalls st)"
  "promptCalls (afterFail w sp st) = Suc (Suc (promptCalls st))"
  "trace (afterFail w sp st) = trace (afterCall w st) @ ConsoleError None #
     (case sp of None \<Rightarrow> [] | Some _ \<Rightarrow> [SpinnerFail ''Error logging in. Try again.''])"
  by (simp_all add: afterFail_def)


lemma attemptAt_spin [simp]: "attemptAt w (spin sp ev st) i = attemptAt w st i"
  by (simp add: attemptAt_def)

lemma loopEvent_cases: "loopEvent e \<Longrightarrow> authEvent e \<and> \<not> isFileWrite e"
  by (cases e) simp_all

lemma loopEvents:
  assumes "list_all loopEvent evs"
  shows "list_all authEvent evs" and "filter isFileWrite evs = []"
  using assms loopEvent_cases by (auto simp: list_all_iff filter_empty_conv)

lemma authEvent_cases: "authEvent e \<Longrightarrow> \<not> isSendCode e \<and> e \<noteq> GetGamesCall uid"
  by (cases e) simp_all

lemma authEvents_not_sync:
  assumes "list_all authEvent evs"
  shows "\<not> list_ex isSendCode evs" and "GetGamesCall uid \<notin> set evs"
  using assms authEvent_cases by (auto simp: list_all_iff list_ex_iff)

subsection \<open>The login loop\<close>


text \<open>
  Whenever the loop ends, it has left the files alone and has logged only prompts, login
  calls and failure reports. By induction on the rounds, through the induction rule of
  the partial function.
\<close>

lemma loginLoop_events_aux:
  assumes "loginLoop w sp st = Some y"
  shows "files (snd y) = files st \<and>
         (\<exists>evs. trace (snd y) = trace st @ evs \<and> list_all loopEvent evs)"
proof (rule loginLoop.raw_induct
    [where P = "\<lambda>w sp st y. files (snd y) = files st \<and>
         (\<exists>evs. trace (snd y) = trace st @ evs \<and> list_all loopEvent evs)", OF _ assms])
  fix loop :: "World \<Rightarrow> Ora option \<Rightarrow> State \<Rightarrow> ((string \<times> string \<times> Session) \<times> State) option"
  fix w sp st y
  assume IH: "\<And>w sp st y. loop w sp st = Some y \<Longrightarrow>
     files (snd y) = files st \<and>
     (\<exists>evs. trace (snd y) = trace st @ evs \<and> list_all loopEvent evs)"
  assume eq: "(case getCreds w st of
        ((username, password), st1) \<Rightarrow>
          (case callLogin w username password st1 of
             (Inl e, st2) \<Rightarrow>
               loop w sp
                 (spin sp (SpinnerFail ''Error logging in. Try again.'')
                    (emit [ConsoleError None] st2))
           | (Inr session, st2) \<Rightarrow> Some ((username, password, session), st2))) = Some y"
  show "files (snd y) = files st \<and>
         (\<exists>evs. trace (snd y) = trace st @ evs \<and> list_all loopEvent evs)"
  proof (cases "attemptAt w st 0")
    case (Inr s)
    with eq have "snd y = afterCall w st"
      by (auto simp: attemptAt_def afterCall_def getCreds_eq callLogin_def)
    then show ?thesis by simp
  next
    case (Inl e)
    with eq have run: "loop w sp (afterFail w sp st) = Some y"
      by (simp add: attemptAt_def afterFail_def afterCall_def getCreds_eq callLogin_def)
    from IH [OF run] show ?thesis
      by (auto split: option.splits)
  qed
qed

lemma loginLoop_events:
  "loginLoop w sp st = Some (r, st') \<Longrightarrow>
     files st' = files st \<and> (\<exists>evs. trace st' = trace st @ evs \<and> list_all loopEvent evs)"
  using loginLoop_events_aux [of w sp st "(r, st')"] by simp


subsection \<open>Authentication\<close>

text \<open>How \<open>login\<close> ends after the loop: it throws what the append throws, or it returns.\<close>

lemma finishLogin_throws:
  assumes "appendFails w envFilePath = Some e"
  shows "finishLogin w envFilePath sp u p s st1 =
           (Threw e, emit [SelectionShown] (spin sp SpinnerClear st1))"
  using assms
  by (auto simp: finishLogin_def appendFails_def appendFileSync_def Let_def split: if_splits)

lemma finishLogin_returns:
  assumes "appendFails w envFilePath = None"
  shows "\<exists>st'. finishLogin w envFilePath sp u p s st1 = (Returned s, st') \<and>
           loginCalls st' = loginCalls st1 \<and>
           files st' (SESSION_FILE_PATH w) = Some (JSON_stringify w s) \<and>
           (\<exists>evs. trace st' = trace st1 @ evs @
                      [FileWrite (SESSION_FILE_PATH w) (JSON_stringify w s)] \<and>
                  list_all authEvent evs \<and> filter isFileWrite evs = [] \<and>
                  filter isLoginCall evs = [])"
  using assms
  by (cases sp)
     (auto simp: finishLogin_def appendFails_def appendFileSync_def Let_def split: if_splits)

lemma finishLogin_cases:
  assumes "finishLogin w envFilePath sp u p s st1 = (out, st')"
  obtains
    (throws) e where "appendFails w envFilePath = Some e" "out = Threw e"
      "st' = emit [SelectionShown] (spin sp SpinnerClear st1)"
  | (returns) evs where "appendFails w envFilePath = None" "out = Returned s"
      "loginCalls st' = loginCalls st1"
      "files st' (SESSION_FILE_PATH w) = Some (JSON_stringify w s)"
      "trace st' = trace st1 @ evs @ [FileWrite (SESSION_FILE_PATH w) (JSON_stringify w s)]"
      "list_all authEvent evs" "filter isFileWrite evs = []" "filter isLoginCall evs = []"
proof (cases "appendFails w envFilePath")
  case None
  from finishLogin_returns [OF None, of sp u p s st1] assms returns [OF None] show ?thesis
    by auto
next
  case (Some e)
  from finishLogin_throws [OF Some, of sp u p s st1] assms throws [OF Some] show ?thesis
    by auto
qed


lemma login_cases:
  assumes "login w envFilePath sp st = Some (out, st')"
  obtains
    (interactive) u p s st1 where "falsy (YARE_LOGIN w) \<or> falsy (YARE_PASSWORD w)"
      "loginLoop w sp (spin sp (SpinnerWarn ''Couldn't find login credentials.'') st)
         = Some ((u, p, s), st1)"
      "finishLogin w envFilePath sp u p s st1 = (out, st')"
  | (automation) "\<not> falsy (YARE_LOGIN w)" "\<not> falsy (YARE_PASSWORD w)"
      "(case sync_login w (loginCalls st) (env_string (YARE_LOGIN w)) (env_string (YARE_PASSWORD w)) of
          Inl e \<Rightarrow> (Threw e, snd (callLogin w (env_string (YARE_LOGIN w)) (env_string (YARE_PASSWORD w)) st))
        | Inr s \<Rightarrow> (Returned s,
             saveSession w s
               (snd (callLogin w (env_string (YARE_LOGIN w)) (env_string (YARE_PASSWORD w)) st))))
       = (out, st')"
proof (cases "falsy (YARE_LOGIN w) \<or> falsy (YARE_PASSWORD w)")
  case True
  with assms interactive show ?thesis
    by (auto simp: login_def split: option.splits)
next
  case False
  with assms automation show ?thesis
    by (auto simp: login_def callLogin_def split: sum.splits)
qed

lemma login_events:
  assumes "login w envFilePath sp st = Some (out, st')"
  shows "\<exists>evs. trace st' = trace st @ evs \<and> list_all authEvent evs"
  using assms
proof (cases rule: login_cases)
  case (interactive u p s st1)
  from loginLoop_events [OF interactive(2)] obtain evs where
    evs: "trace st1 = trace st @ evs" "list_all authEvent evs"
    by (auto split: option.splits dest: loopEvents(1))
  from interactive(3) show ?thesis
  proof (cases rule: finishLogin_cases)
    case (throws e)
    with evs show ?thesis by (auto split: option.splits)
  next
    case (returns evs')
    with evs show ?thesis by auto
  qed
next
  case automation
  then show ?thesis
    by (auto simp: callLogin_def split: sum.splits)
qed




lemma authStage_events:
  assumes "authStage w opts st = Some (out, st')"
  shows "\<exists>evs. trace st' = trace st @ evs \<and> list_all authEvent evs"
proof (cases "getExistingSession w (emit [SpinnerStart ''Logging In''] st)")
  case (Returned cached)
  show ?thesis
  proof (cases cached)
    case None
    with Returned assms have
      "login w (env opts) (Some ''Logging In'')
         (emit [SpinnerClear] (emit [SpinnerStart ''Logging In''] st)) = Some (out, st')"
      by (simp add: authStage_def)
    from login_events [OF this] show ?thesis by auto
  next
    case (Some s)
    with Returned assms show ?thesis by (auto simp: authStage_def)
  qed
next
  case (Threw e)
  with assms show ?thesis by (auto simp: authStage_def)
next
  case (Exited c)
  with assms show ?thesis by (auto simp: authStage_def)
qed

subsection \<open>The stages of a cycle\<close>

lemma buildStage_simps [simp]:
  "trace (snd (buildStage w opts st)) = trace st @ [BuildCall (file_opt opts) (\<not> noMinify opts)]"
  "files (snd (buildStage w opts st)) =
     snd (Bun_build w (file_opt opts) (\<not> noMinify opts) (files st))"
  "fst (buildStage w opts st) =
     (case fst (Bun_build w (file_opt opts) (\<not> noMinify opts) (files st)) of
        Inl e \<Rightarrow> Inl e
      | Inr outputs \<Rightarrow> (case outputs of [] \<Rightarrow> Inl TypeError | out # _ \<Rightarrow> Inr out))"
  by (simp_all add: buildStage_def Let_def split: prod.splits sum.splits list.splits)

lemma buildStage_failure:
  "buildError w opts st = Some e \<Longrightarrow> fst (buildStage w opts (emit evs st)) = Inl e"
  by (simp add: buildError_def split: sum.splits list.splits)

text \<open>A cycle whose build stage throws: the process ends with code 1, right after the report.\<close>

lemma buildAndSync_build_failed:
  assumes "files st (file_opt opts) = Some src" and "buildError w opts st = Some e"
  shows "\<exists>st'. buildAndSync w opts st = Some (Exited 1, st') \<and>
           trace st' = trace st @
             [SpinnerStart ''Building'', BuildCall (file_opt opts) (\<not> noMinify opts),
              SpinnerFail (chalk w ''red.bold'' ''Build failed:'' @ '' Unexpected error''),
              ConsoleError (Some e)]"
proof -
  let ?st1 = "emit [SpinnerStart ''Building''] st"
  obtain res st2 where b: "buildStage w opts ?st1 = (res, st2)"
    by (cases "buildStage w opts ?st1")
  have tb: "trace st2 =
      trace st @ [SpinnerStart ''Building'', BuildCall (file_opt opts) (\<not> noMinify opts)]"
    using buildStage_simps(1) [of w opts ?st1] b by simp
  have "res = fst (buildStage w opts ?st1)" using b by simp
  with assms(2) have "res = Inl e" by (simp add: buildStage_failure del: buildStage_simps)
  with assms(1) b tb show ?thesis
    by (simp add: buildAndSync_def Let_def del: buildStage_simps)
qed

lemma syncStage_trace:
  "\<exists>tl. trace (snd (syncStage w d s st)) =
     trace st @ [SpinnerSucceed (''Logged in as '' @ chalk w ''green.bold'' (user_id s)),
                 SpinnerStart ''Syncing'', GetGamesCall (user_id s)] @ tl \<and>
     list_all (usesSession s) tl \<and> \<not> list_ex isLoginCall tl"
  by (simp add: syncStage_def Let_def split: sum.splits option.splits)

lemma syncStage_counters [simp]:
  "loginCalls (snd (syncStage w d s st)) = loginCalls st"
  "promptCalls (snd (syncStage w d s st)) = promptCalls st"
  "files (snd (syncStage w d s st)) = files st"
  by (simp_all add: syncStage_def Let_def split: sum.splits option.splits)

text \<open>
  The four ways a cycle can end: the entrypoint is missing, the build stage throws,
  authentication does not return a session, or the cycle reaches the sync stage.
\<close>

lemma buildAndSync_cases:
  assumes run: "buildAndSync w opts st = Some (out, st')"
  obtains
    (missing) "files st (file_opt opts) = None" "out = Exited 9"
      "trace st' = trace st @
         [SpinnerStart ''Building'',
          SpinnerFail (chalk w ''red.bold'' ''Build failed:'' @ '' Could not find entrypoint '' @
                       chalk w ''bold'' (file_opt opts) @ ''.'')]"
  | (failed) e where "files st (file_opt opts) \<noteq> None"
      "fst (buildStage w opts (emit [SpinnerStart ''Building''] st)) = Inl e"
      "out = Exited 1"
      "trace st' = trace st @
         [SpinnerStart ''Building'', BuildCall (file_opt opts) (\<not> noMinify opts),
          SpinnerFail (chalk w ''red.bold'' ''Build failed:'' @ '' Unexpected error''),
          ConsoleError (Some e)]"
  | (unauthenticated) distFile evs where "files st (file_opt opts) \<noteq> None"
      "fst (buildStage w opts (emit [SpinnerStart ''Building''] st)) = Inr distFile"
      "\<forall>u. out \<noteq> Returned u"
      "trace st' = trace st @ builtEvents opts @ evs" "list_all authEvent evs"
  | (authenticated) distFile session st3 evs where "files st (file_opt opts) \<noteq> None"
      "fst (buildStage w opts (emit [SpinnerStart ''Building''] st)) = Inr distFile"
      "authStage w opts
         (emit [SpinnerSucceed ''Built'']
            (snd (buildStage w opts (emit [SpinnerStart ''Building''] st))))
       = Some (Returned session, st3)"
      "trace st3 = trace st @ builtEvents opts @ evs" "list_all authEvent evs"
      "syncStage w distFile session st3 = (out, st')"
proof (cases "files st (file_opt opts)")
  case None
  with run missing show ?thesis
    by (auto simp: buildAndSync_def Let_def)
next
  case (Some src)
  let ?st1 = "emit [SpinnerStart ''Building''] st"
  obtain res st2 where b: "buildStage w opts ?st1 = (res, st2)"
    by (cases "buildStage w opts ?st1")
  have tb: "trace st2 =
      trace st @ [SpinnerStart ''Building'', BuildCall (file_opt opts) (\<not> noMinify opts)]"
    using buildStage_simps(1) [of w opts ?st1] b by simp
  have st2: "st2 = snd (buildStage w opts ?st1)" and res: "res = fst (buildStage w opts ?st1)"
    using b by simp_all
  show ?thesis
  proof (cases res)
    case (Inl e)
    with run Some b tb have "out = Exited 1" "trace st' = trace st @
         [SpinnerStart ''Building'', BuildCall (file_opt opts) (\<not> noMinify opts),
          SpinnerFail (chalk w ''red.bold'' ''Build failed:'' @ '' Unexpected error''),
          ConsoleError (Some e)]"
      by (auto simp: buildAndSync_def Let_def simp del: buildStage_simps)
    with Some Inl res failed [of e] show ?thesis
      by simp
  next
    case (Inr distFile)
    let ?a = "authStage w opts (emit [SpinnerSucceed ''Built''] st2)"
    from run Some b Inr obtain r st3 where a: "?a = Some (r, st3)"
      and rest: "(case r of Returned session \<Rightarrow> syncStage w distFile session st3
                  | Threw e \<Rightarrow> (Threw e, st3) | Exited c \<Rightarrow> (Exited c, st3)) = (out, st')"
      by (auto simp: buildAndSync_def Let_def simp del: buildStage_simps
               split: option.splits Outcome.splits)
    from authStage_events [OF a] tb obtain evs where
      evs: "trace st3 = trace st @ builtEvents opts @ evs" "list_all authEvent evs"
      by (auto simp: builtEvents_def)
    show ?thesis
    proof (cases r)
      case (Returned session)
      with rest a evs Some Inr res st2 authenticated [of distFile session st3 evs] show ?thesis
        by simp
    next
      case (Threw e)
      with rest evs Some Inr res unauthenticated [of distFile evs] show ?thesis
        by auto
    next
      case (Exited c)
      with rest evs Some Inr res unauthenticated [of distFile evs] show ?thesis
        by auto
    qed
  qed
qed

text \<open>
  A cycle whose build completes and whose authentication returns a session goes on into
  the sync stage, which always ends: from there on the cycle has a result.
\<close>

lemma sync_reached:
  assumes entry: "files st (file_opt opts) \<noteq> None"
    and build: "fst (Bun_build w (file_opt opts) (\<not> noMinify opts) (files st)) = Inr (distFile # outs)"
    and auth: "authStage w opts (afterBuild w opts st) = Some (Returned session, st3)"
  shows "buildAndSync w opts st = Some (syncStage w distFile session st3)"
    and "\<exists>evs. trace st3 = trace st @ builtEvents opts @ evs \<and> list_all authEvent evs"
proof -
  let ?st1 = "emit [SpinnerStart ''Building''] st"
  from entry obtain src where src: "files st (file_opt opts) = Some src" by auto
  obtain res st2 where b: "buildStage w opts ?st1 = (res, st2)"
    by (cases "buildStage w opts ?st1")
  have "res = fst (buildStage w opts ?st1)" using b by simp
  with build have res: "res = Inr distFile" by simp
  have st2: "afterBuild w opts st = emit [SpinnerSucceed ''Built''] st2"
    using b by (simp add: afterBuild_def del: buildStage_simps)
  show "buildAndSync w opts st = Some (syncStage w distFile session st3)"
    using src b res auth st2
    by (simp add: buildAndSync_def Let_def del: buildStage_simps)
  have "trace (afterBuild w opts st) = trace st @ builtEvents opts"
    by (simp add: afterBuild_def builtEvents_def)
  with authStage_events [OF auth]
  show "\<exists>evs. trace st3 = trace st @ builtEvents opts @ evs \<and> list_all authEvent evs"
    by auto
qed

text \<open>What the sync stage does, case by case.\<close>

lemma syncStage_no_games:
  assumes "sync_getGames w (user_id session) = Inr []"
  shows "syncStage w distFile session st =
     (Returned (),
      emit [SpinnerSucceed (''Logged in as '' @ chalk w ''green.bold'' (user_id session)),
            SpinnerStart ''Syncing'', GetGamesCall (user_id session),
            SpinnerWarn ''No current games.''] st)"
  using assms by (simp add: syncStage_def Let_def emit_def)

lemma syncStage_upload:
  assumes "sync_getGames w (user_id session) = Inr games" and "games \<noteq> []"
    and "files st distFile = Some text"
    and "sync_sendCode w text games session = Inr successful"
  shows "syncStage w distFile session st =
     (Returned (),
      emit [SpinnerSucceed (''Logged in as '' @ chalk w ''green.bold'' (user_id session)),
            SpinnerStart ''Syncing'', GetGamesCall (user_id session),
            SendCodeCall text games session,
            if successful then SpinnerSucceed (uploadedMessage games)
            else SpinnerFail ''Upload to yare failed.''] st)"
  using assms by (simp add: syncStage_def Let_def emit_def)

text \<open>
  The message of a successful upload without \<open>join\<close>: the first target, then each further
  target behind a comma and a space, in the order of the list.
\<close>

lemma join_concat: "join sep (x # xs) = x @ concat (map (\<lambda>y. sep @ y) xs)"
  by (induction xs arbitrary: x) simp_all

lemma uploadedMessage_listing:
  "uploadedMessage (g # gs) =
     ''Uploaded your code to these games: '' @ server g @ ''/'' @ id_game g @
     concat (map (\<lambda>h. '', '' @ server h @ ''/'' @ id_game h) gs)"
  by (simp add: uploadedMessage_def join_concat comp_def)

subsection \<open>Runs in the concrete world\<close>

lemmas ex_defs = exWorld_def exOpts_def exState_def exOnDisk_def exCached_def exSession_def
  exExpired_def exGames_def exStringify_def exThrowingBuild_def exNoOutputs_def exNoGames_def
  exInteractive_def exBadPassword_def exSaveCreds_def exAppendFails_def exThreeGames_def
  exUploadFails_def SESSION_FILE_PATH_def

lemmas run_defs = buildAndSync_def buildStage_def authStage_def getExistingSession_def
  syncStage_def uploadedMessage_def emit_def emitted_def Let_def

text \<open>With a valid session on disk, the cycle uploads to both games without logging in.\<close>

lemma ex_cached_run:
  "\<exists>st'. buildAndSync exWorld exOpts exCached = Some (Returned (), st') \<and>
     emitted exCached st' =
       [SpinnerStart ''Building'', BuildCall ''src/index.ts'' True, SpinnerSucceed ''Built'',
        SpinnerStart ''Logging In'', SpinnerSucceed ''Logged in as alice'',
        SpinnerStart ''Syncing'', GetGamesCall ''alice'',
        SendCodeCall ''bundle'' exGames exSession,
        SpinnerSucceed ''Uploaded your code to these games: a/1, b/2'']"
  by (simp add: ex_defs run_defs)

text \<open>In both worlds, authentication after the build returns the session on disk.\<close>

lemma ex_cached_auth:
  "files exCached (file_opt exOpts) \<noteq> None"
  "fst (Bun_build exWorld (file_opt exOpts) (\<not> noMinify exOpts) (files exCached)) =
     Inr [''./dist/index.js'']"
  "authStage exWorld exOpts (afterBuild exWorld exOpts exCached) =
     Some (Returned exSession,
           emit [SpinnerStart ''Logging In''] (afterBuild exWorld exOpts exCached))"
  "files (emit [SpinnerStart ''Logging In''] (afterBuild exWorld exOpts exCached))
     ''./dist/index.js'' = Some ''bundle''"
  by (simp_all add: ex_defs afterBuild_def authStage_def getExistingSession_def buildStage_def
        Let_def)

lemma ex_nogames_auth:
  "fst (Bun_build exNoGames (file_opt exOpts) (\<not> noMinify exOpts) (files exCached)) =
     Inr [''./dist/index.js'']"
  "authStage exNoGames exOpts (afterBuild exNoGames exOpts exCached) =
     Some (Returned exSession,
           emit [SpinnerStart ''Logging In''] (afterBuild exNoGames exOpts exCached))"
  by (simp_all add: ex_defs afterBuild_def authStage_def getExistingSession_def buildStage_def
        Let_def)

lemma ex_three_auth:
  "fst (Bun_build exThreeGames (file_opt exOpts) (\<not> noMinify exOpts) (files exCached)) =
     Inr [''./dist/index.js'']"
  "authStage exThreeGames exOpts (afterBuild exThreeGames exOpts exCached) =
     Some (Returned exSession,
           emit [SpinnerStart ''Logging In''] (afterBuild exThreeGames exOpts exCached))"
  "files (emit [SpinnerStart ''Logging In''] (afterBuild exThreeGames exOpts exCached))
     ''./dist/index.js'' = Some ''bundle''"
  by (simp_all add: ex_defs afterBuild_def authStage_def getExistingSession_def buildStage_def
        Let_def)

lemma ex_fails_auth:
  "fst (Bun_build exUploadFails (file_opt exOpts) (\<not> noMinify exOpts) (files exCached)) =
     Inr [''./dist/index.js'']"
  "authStage exUploadFails exOpts (afterBuild exUploadFails exOpts exCached) =
     Some (Returned exSession,
           emit [SpinnerStart ''Logging In''] (afterBuild exUploadFails exOpts exCached))"
  "files (emit [SpinnerStart ''Logging In''] (afterBuild exUploadFails exOpts exCached))
     ''./dist/index.js'' = Some ''bundle''"
  by (simp_all add: ex_defs afterBuild_def authStage_def getExistingSession_def buildStage_def
        Let_def)

text \<open>The same for a user without current games: a warning, and no upload.\<close>

lemma ex_nogames_run:
  "\<exists>st'. buildAndSync exNoGames exOpts exCached = Some (Returned (), st') \<and>
     emitted exCached st' =
       [SpinnerStart ''Building'', BuildCall ''src/index.ts'' True, SpinnerSucceed ''Built'',
        SpinnerStart ''Logging In'', SpinnerSucceed ''Logged in as alice'',
        SpinnerStart ''Syncing'', GetGamesCall ''alice'',
        SpinnerWarn ''No current games.'']"
  by (simp add: ex_defs run_defs)

section \<open>The claims\<close>

text \<open>
  C1. In every sync cycle, \<open>sendCode\<close> is invoked only if the build stage completed
  without error. When the build stage does not complete (the entrypoint is missing, the
  bundler throws, or it reports no output), the cycle ends the process and its log holds
  no upload; so a cycle whose log holds an upload had a build that completed.
\<close>

theorem C1_upload_only_after_build:
  "(\<not> buildCompletes w opts st \<longrightarrow>
      (\<exists>c st'. buildAndSync w opts st = Some (Exited c, st') \<and>
                \<not> list_ex isSendCode (emitted st st'))) \<and>
   (buildAndSync w opts st = Some (out, st') \<and> list_ex isSendCode (emitted st st') \<longrightarrow>
      buildCompletes w opts st)"
proof -
  have A: "\<exists>c st'. buildAndSync w opts st = Some (Exited c, st') \<and>
                \<not> list_ex isSendCode (emitted st st')" if "\<not> buildCompletes w opts st"
  proof (cases "files st (file_opt opts)")
    case None
    then show ?thesis by (simp add: buildAndSync_def Let_def)
  next
    case (Some src)
    with that obtain e where "buildError w opts st = Some e"
      by (auto simp: buildCompletes_def)
    from buildAndSync_build_failed [OF Some this] show ?thesis
      by auto
  qed
  have B: "buildCompletes w opts st"
    if "buildAndSync w opts st = Some (out, st')" "list_ex isSendCode (emitted st st')"
    using A that by (cases "buildCompletes w opts st") auto
  from A B show ?thesis by blast
qed

theorem C1_upload_only_after_build_witness:
  "\<not> buildCompletes exThrowingBuild exOpts exState \<and>
   (\<exists>c st'. buildAndSync exThrowingBuild exOpts exState = Some (Exited c, st') \<and>
             \<not> list_ex isSendCode (emitted exState st')) \<and>
   (\<exists>st'. buildAndSync exWorld exOpts exCached = Some (Returned (), st') \<and>
           list_ex isSendCode (emitted exCached st')) \<and>
   buildCompletes exWorld exOpts exCached"
proof -
  have failing: "\<not> buildCompletes exThrowingBuild exOpts exState"
    by (simp add: buildCompletes_def buildError_def ex_defs)
  from ex_cached_run obtain st' where
    run: "buildAndSync exWorld exOpts exCached = Some (Returned (), st')"
    and upload: "list_ex isSendCode (emitted exCached st')"
    by auto
  from failing run upload
    C1_upload_only_after_build [of exThrowingBuild exOpts exState]
    C1_upload_only_after_build [of exWorld exOpts exCached "Returned ()" st']
  show ?thesis by blast
qed

text \<open>
  C2. When the entrypoint file does not exist, the cycle ends the process with exit code
  9; all it does is start the spinner and report the failure: no build call, no login
  attempt, no upload call, and the files are as they were.
\<close>

theorem C2_missing_entrypoint_exits_9:
  assumes "files st (file_opt opts) = None"
  shows "\<exists>st'. buildAndSync w opts st = Some (Exited 9, st') \<and>
           emitted st st' =
             [SpinnerStart ''Building'',
              SpinnerFail (chalk w ''red.bold'' ''Build failed:'' @
                           '' Could not find entrypoint '' @
                           chalk w ''bold'' (file_opt opts) @ ''.'')] \<and>
           files st' = files st \<and> loginCalls st' = loginCalls st"
  using assms by (simp add: buildAndSync_def Let_def)

theorem C2_missing_entrypoint_exits_9_witness:
  "files (exState\<lparr>files := Map.empty\<rparr>) (file_opt exOpts) = None \<and>
   (\<exists>st'. buildAndSync exWorld exOpts (exState\<lparr>files := Map.empty\<rparr>) = Some (Exited 9, st') \<and>
      emitted (exState\<lparr>files := Map.empty\<rparr>) st' =
        [SpinnerStart ''Building'',
         SpinnerFail ''Build failed: Could not find entrypoint src/index.ts.''])"
  using C2_missing_entrypoint_exits_9 [of "exState\<lparr>files := Map.empty\<rparr>" exOpts exWorld]
  by (auto simp: ex_defs)

text \<open>
  C3, as amended. \<open>getExistingSession\<close> returns \<open>null\<close>, and does not throw, when the
  session file is missing and when the stored session parses but fails the verification
  predicate; it never returns a session that fails verification. When the contents of the
  file do not parse, the exception of \<open>file.json()\<close> leaves the function: there is no
  \<open>try\<close> around it.
\<close>

theorem C3_load_absent_or_verified:
  "(files st (SESSION_FILE_PATH w) = None \<longrightarrow> getExistingSession w st = Returned None) \<and>
   (files st (SESSION_FILE_PATH w) = Some contents \<and> file_json w contents = Inr session \<and>
      \<not> sync_verifySession w session \<longrightarrow> getExistingSession w st = Returned None) \<and>
   (getExistingSession w st = Returned (Some session') \<longrightarrow> sync_verifySession w session') \<and>
   (files st (SESSION_FILE_PATH w) = Some contents \<and> file_json w contents = Inl e \<longrightarrow>
      getExistingSession w st = Threw e)"
  by (auto simp: getExistingSession_def split: option.splits sum.splits if_splits)

theorem C3_load_absent_or_verified_witness:
  "files exState (SESSION_FILE_PATH exWorld) = None \<and>
   getExistingSession exWorld exState = Returned None \<and>
   files (exOnDisk (exStringify exExpired)) (SESSION_FILE_PATH exWorld)
     = Some (exStringify exExpired) \<and>
   file_json exWorld (exStringify exExpired) = Inr exExpired \<and>
   \<not> sync_verifySession exWorld exExpired \<and>
   getExistingSession exWorld (exOnDisk (exStringify exExpired)) = Returned None \<and>
   getExistingSession exWorld exCached = Returned (Some exSession) \<and>
   sync_verifySession exWorld exSession \<and>
   files (exOnDisk ''not json'') (SESSION_FILE_PATH exWorld) = Some ''not json'' \<and>
   file_json exWorld ''not json'' = Inl SyntaxError \<and>
   getExistingSession exWorld (exOnDisk ''not json'') = Threw SyntaxError"
proof -
  have missing: "files exState (SESSION_FILE_PATH exWorld) = None"
    by (simp add: ex_defs)
  have expired: "files (exOnDisk (exStringify exExpired)) (SESSION_FILE_PATH exWorld)
       = Some (exStringify exExpired)"
      "file_json exWorld (exStringify exExpired) = Inr exExpired"
      "\<not> sync_verifySession exWorld exExpired"
    by (simp_all add: ex_defs)
  have cached: "getExistingSession exWorld exCached = Returned (Some exSession)"
    by (simp add: ex_defs getExistingSession_def)
  have corrupt: "files (exOnDisk ''not json'') (SESSION_FILE_PATH exWorld) = Some ''not json''"
      "file_json exWorld ''not json'' = Inl SyntaxError"
    by (simp_all add: ex_defs)
  from missing expired cached corrupt
    C3_load_absent_or_verified [of exState exWorld]
    C3_load_absent_or_verified
      [of "exOnDisk (exStringify exExpired)" exWorld "exStringify exExpired" exExpired]
    C3_load_absent_or_verified [of exCached exWorld _ _ exSession]
    C3_load_absent_or_verified [of "exOnDisk ''not json''" exWorld "''not json''" _ _ SyntaxError]
  show ?thesis by blast
qed

text \<open>
  C3 as it was written fails: with a session file whose contents are not JSON,
  \<open>getExistingSession\<close> throws instead of returning \<open>null\<close>.
\<close>

theorem C3_unparseable_file_throws:
  "files (exOnDisk ''not json'') (SESSION_FILE_PATH exWorld) = Some ''not json'' \<and>
   file_json exWorld ''not json'' = Inl SyntaxError \<and>
   getExistingSession exWorld (exOnDisk ''not json'') \<noteq> Returned None \<and>
   getExistingSession exWorld (exOnDisk ''not json'') = Threw SyntaxError"
  by (simp add: ex_defs getExistingSession_def)



text \<open>
  C5. In a cycle that reaches the upload stage, the last report follows the answer of
  \<open>sendCode\<close>: on \<open>false\<close> the failure \<open>Upload to yare failed.\<close>, on \<open>true\<close> a success
  whose message lists the targets \<open>getGames\<close> returned, each once, in the order of the
  list: the message is the heading, then \<open>server/id\<close> of the first target, then for each
  further target, in order, a comma, a space and its \<open>server/id\<close>. First part: a cycle
  whose build completes, whose authentication returns a session, whose list of games is
  \<open>g # gs\<close> and whose artifact can be read, returns, and after authentication it logs
  exactly the report of the identity, the call of \<open>getGames\<close>, the call of \<open>sendCode\<close> and
  that last report. Second part: in every cycle that ends with the call of \<open>sendCode\<close> in
  its log, the targets sent are the list \<open>getGames\<close> returned, the list is not empty, the
  cycle returned normally and its last report is as said.
\<close>

theorem C5_upload_report:
  "(files st (file_opt opts) \<noteq> None \<and>
    fst (Bun_build w (file_opt opts) (\<not> noMinify opts) (files st)) = Inr (distFile # outs) \<and>
    authStage w opts (afterBuild w opts st) = Some (Returned session, st3) \<and>
    sync_getGames w (user_id session) = Inr (g # gs) \<and>
    files st3 distFile = Some text \<and>
    sync_sendCode w text (g # gs) session = Inr successful \<longrightarrow>
      (\<exists>st'. buildAndSync w opts st = Some (Returned (), st') \<and>
         emitted st3 st' =
           [SpinnerSucceed (''Logged in as '' @ chalk w ''green.bold'' (user_id session)),
            SpinnerStart ''Syncing'', GetGamesCall (user_id session),
            SendCodeCall text (g # gs) session,
            if successful
            then SpinnerSucceed
                   (''Uploaded your code to these games: '' @ server g @ ''/'' @ id_game g @
                    concat (map (\<lambda>h. '', '' @ server h @ ''/'' @ id_game h) gs))
            else SpinnerFail ''Upload to yare failed.''])) \<and>
   (buildAndSync w opts st = Some (out, st'') \<and>
    SendCodeCall text' games' session' \<in> set (emitted st st'') \<and>
    sync_sendCode w text' games' session' = Inr successful' \<longrightarrow>
      out = Returned () \<and>
      sync_getGames w (user_id session') = Inr games' \<and>
      games' \<noteq> [] \<and>
      last (emitted st st'') =
        (if successful'
         then SpinnerSucceed
                (''Uploaded your code to these games: '' @
                 server (hd games') @ ''/'' @ id_game (hd games') @
                 concat (map (\<lambda>h. '', '' @ server h @ ''/'' @ id_game h) (tl games')))
         else SpinnerFail ''Upload to yare failed.''))"
proof -
  have total: "\<exists>st'. buildAndSync w opts st = Some (Returned (), st') \<and>
         emitted st3 st' =
           [SpinnerSucceed (''Logged in as '' @ chalk w ''green.bold'' (user_id session)),
            SpinnerStart ''Syncing'', GetGamesCall (user_id session),
            SendCodeCall text (g # gs) session,
            if successful
            then SpinnerSucceed
                   (''Uploaded your code to these games: '' @ server g @ ''/'' @ id_game g @
                    concat (map (\<lambda>h. '', '' @ server h @ ''/'' @ id_game h) gs))
            else SpinnerFail ''Upload to yare failed.'']"
    if entry: "files st (file_opt opts) \<noteq> None"
      and build: "fst (Bun_build w (file_opt opts) (\<not> noMinify opts) (files st))
                    = Inr (distFile # outs)"
      and auth: "authStage w opts (afterBuild w opts st) = Some (Returned session, st3)"
      and games: "sync_getGames w (user_id session) = Inr (g # gs)"
      and artifact: "files st3 distFile = Some text"
      and answer: "sync_sendCode w text (g # gs) session = Inr successful"
  proof -
    have "g # gs \<noteq> []" by simp
    from sync_reached(1) [OF entry build auth]
      syncStage_upload [OF games this artifact answer]
    show ?thesis
      by (simp add: uploadedMessage_listing)
  qed
  have every: "out = Returned () \<and>
      sync_getGames w (user_id session') = Inr games' \<and>
      games' \<noteq> [] \<and>
      last (emitted st st'') =
        (if successful'
         then SpinnerSucceed
                (''Uploaded your code to these games: '' @
                 server (hd games') @ ''/'' @ id_game (hd games') @
                 concat (map (\<lambda>h. '', '' @ server h @ ''/'' @ id_game h) (tl games')))
         else SpinnerFail ''Upload to yare failed.'')"
    if run: "buildAndSync w opts st = Some (out, st'')"
      and called: "SendCodeCall text' games' session' \<in> set (emitted st st'')"
      and answer: "sync_sendCode w text' games' session' = Inr successful'"
    using run
  proof (cases rule: buildAndSync_cases)
    case missing
    with called show ?thesis by simp
  next
    case (failed e)
    with called show ?thesis by simp
  next
    case (unauthenticated d evs)
    with called authEvents_not_sync(1) [OF unauthenticated(5)] show ?thesis
      by (auto simp: builtEvents_def list_ex_iff)
  next
    case (authenticated d s st4 evs)
    have pre: "SendCodeCall text' games' session' \<notin> set (builtEvents opts @ evs)"
      using authEvents_not_sync(1) [OF authenticated(5)]
      by (auto simp: builtEvents_def list_ex_iff)
    from called authenticated(4,6) pre answer
    have facts: "out = Returned ()" "sync_getGames w (user_id session') = Inr games'"
      "games' \<noteq> []"
      "last (emitted st st'') =
         (if successful' then SpinnerSucceed (uploadedMessage games')
          else SpinnerFail ''Upload to yare failed.'')"
      by (auto simp: syncStage_def Let_def emitted_def
               split: sum.splits option.splits if_splits)
    from facts(3) obtain g' gs' where "games' = g' # gs'"
      by (cases games') auto
    with facts show ?thesis
      by (simp add: uploadedMessage_listing)
  qed
  from total every show ?thesis by blast
qed

theorem C5_upload_report_witness:
  "files exCached (file_opt exOpts) \<noteq> None \<and>
   fst (Bun_build exWorld (file_opt exOpts) (\<not> noMinify exOpts) (files exCached)) =
     Inr [''./dist/index.js''] \<and>
   authStage exWorld exOpts (afterBuild exWorld exOpts exCached) =
     Some (Returned exSession,
           emit [SpinnerStart ''Logging In''] (afterBuild exWorld exOpts exCached)) \<and>
   sync_getGames exWorld (user_id exSession) = Inr exGames \<and>
   files (emit [SpinnerStart ''Logging In''] (afterBuild exWorld exOpts exCached))
     ''./dist/index.js'' = Some ''bundle'' \<and>
   sync_sendCode exWorld ''bundle'' exGames exSession = Inr True \<and>
   (\<exists>st'. buildAndSync exWorld exOpts exCached = Some (Returned (), st') \<and>
      emitted (emit [SpinnerStart ''Logging In''] (afterBuild exWorld exOpts exCached)) st' =
        [SpinnerSucceed ''Logged in as alice'', SpinnerStart ''Syncing'', GetGamesCall ''alice'',
         SendCodeCall ''bundle'' exGames exSession,
         SpinnerSucceed ''Uploaded your code to these games: a/1, b/2''] \<and>
      SendCodeCall ''bundle'' exGames exSession \<in> set (emitted exCached st') \<and>
      last (emitted exCached st') =
        SpinnerSucceed ''Uploaded your code to these games: a/1, b/2'') \<and>
   (\<exists>st'. buildAndSync exThreeGames exOpts exCached = Some (Returned (), st') \<and>
      last (emitted (emit [SpinnerStart ''Logging In'']
                       (afterBuild exThreeGames exOpts exCached)) st') =
        SpinnerSucceed ''Uploaded your code to these games: a/1, b/2, c/3'') \<and>
   (\<exists>st'. buildAndSync exUploadFails exOpts exCached = Some (Returned (), st') \<and>
      emitted (emit [SpinnerStart ''Logging In'']
                 (afterBuild exUploadFails exOpts exCached)) st' =
        [SpinnerSucceed ''Logged in as alice'', SpinnerStart ''Syncing'', GetGamesCall ''alice'',
         SendCodeCall ''bundle'' [\<lparr>server = ''a'', id_game = ''1''\<rparr>] exSession,
         SpinnerFail ''Upload to yare failed.''])"
proof -
  let ?st3 = "emit [SpinnerStart ''Logging In''] (afterBuild exWorld exOpts exCached)"
  have games: "sync_getGames exWorld (user_id exSession) = Inr exGames"
    and answer: "sync_sendCode exWorld ''bundle'' exGames exSession = Inr True"
    by (simp_all add: ex_defs)
  have more: "chalk exWorld = (\<lambda>style s. s)" "user_id exSession = ''alice''"
    "chalk exThreeGames = (\<lambda>style s. s)" "chalk exUploadFails = (\<lambda>style s. s)"
    by (simp_all add: ex_defs)
  have two: "\<exists>st'. buildAndSync exWorld exOpts exCached = Some (Returned (), st') \<and>
      emitted ?st3 st' =
        [SpinnerSucceed ''Logged in as alice'', SpinnerStart ''Syncing'', GetGamesCall ''alice'',
         SendCodeCall ''bundle'' exGames exSession,
         SpinnerSucceed ''Uploaded your code to these games: a/1, b/2'']"
    using C5_upload_report
      [of exCached exOpts exWorld "''./dist/index.js''" "[]" exSession ?st3
          "\<lparr>server = ''a'', id_game = ''1''\<rparr>" "[\<lparr>server = ''b'', id_game = ''2''\<rparr>]"
          "''bundle''" True, THEN conjunct1]
      ex_cached_auth games answer
    by (simp add: more exGames_def)
  then obtain st' where run: "buildAndSync exWorld exOpts exCached = Some (Returned (), st')"
    and after: "emitted ?st3 st' =
        [SpinnerSucceed ''Logged in as alice'', SpinnerStart ''Syncing'', GetGamesCall ''alice'',
         SendCodeCall ''bundle'' exGames exSession,
         SpinnerSucceed ''Uploaded your code to these games: a/1, b/2'']"
    by blast
  from ex_cached_run run
  have called: "SendCodeCall ''bundle'' exGames exSession \<in> set (emitted exCached st')"
    by auto
  have lastly: "last (emitted exCached st') =
        SpinnerSucceed ''Uploaded your code to these games: a/1, b/2''"
    using C5_upload_report
      [of exCached exOpts exWorld _ _ _ _ _ _ _ _ "Returned ()" st' "''bundle''" exGames
          exSession True, THEN conjunct2]
      run called answer
    by (simp add: exGames_def)
  have three: "\<exists>st'. buildAndSync exThreeGames exOpts exCached = Some (Returned (), st') \<and>
      last (emitted (emit [SpinnerStart ''Logging In'']
                       (afterBuild exThreeGames exOpts exCached)) st') =
        SpinnerSucceed ''Uploaded your code to these games: a/1, b/2, c/3''"
    using C5_upload_report
      [of exCached exOpts exThreeGames "''./dist/index.js''" "[]" exSession
          "emit [SpinnerStart ''Logging In''] (afterBuild exThreeGames exOpts exCached)"
          "\<lparr>server = ''a'', id_game = ''1''\<rparr>"
          "[\<lparr>server = ''b'', id_game = ''2''\<rparr>, \<lparr>server = ''c'', id_game = ''3''\<rparr>]"
          "''bundle''" True, THEN conjunct1]
      ex_cached_auth(1) ex_three_auth
    by (auto simp: more exThreeGames_def exWorld_def)
  have failing: "\<exists>st'. buildAndSync exUploadFails exOpts exCached = Some (Returned (), st') \<and>
      emitted (emit [SpinnerStart ''Logging In'']
                 (afterBuild exUploadFails exOpts exCached)) st' =
        [SpinnerSucceed ''Logged in as alice'', SpinnerStart ''Syncing'', GetGamesCall ''alice'',
         SendCodeCall ''bundle'' [\<lparr>server = ''a'', id_game = ''1''\<rparr>] exSession,
         SpinnerFail ''Upload to yare failed.'']"
    using C5_upload_report
      [of exCached exOpts exUploadFails "''./dist/index.js''" "[]" exSession
          "emit [SpinnerStart ''Logging In''] (afterBuild exUploadFails exOpts exCached)"
          "\<lparr>server = ''a'', id_game = ''1''\<rparr>" "[]" "''bundle''" False, THEN conjunct1]
      ex_cached_auth(1) ex_fails_auth
    by (auto simp: more exUploadFails_def exWorld_def)
  from ex_cached_auth games answer run after called lastly three failing show ?thesis
    by blast
qed

text \<open>
  C6. When the build succeeds and the session file, as the disk is once the bundler has
  run, holds a session that parses and passes the verification predicate, the cycle ends
  having made no login call, and the rest of the cycle runs on that session: the games
  are asked for its user and any upload is sent with it.
\<close>

theorem C6_cached_session_no_login:
  assumes entry: "files st (file_opt opts) \<noteq> None"
    and build: "Bun_build w (file_opt opts) (\<not> noMinify opts) (files st) = (Inr (out # outs), fs')"
    and cached: "fs' (SESSION_FILE_PATH w) = Some contents"
    and parsed: "file_json w contents = Inr session"
    and valid: "sync_verifySession w session"
  shows "\<exists>r st'. buildAndSync w opts st = Some (r, st') \<and>
           loginCalls st' = loginCalls st \<and>
           \<not> list_ex isLoginCall (emitted st st') \<and>
           GetGamesCall (user_id session) \<in> set (emitted st st') \<and>
           list_all (usesSession session) (emitted st st')"
proof -
  let ?st1 = "emit [SpinnerStart ''Building''] st"
  let ?st2 = "emit [BuildCall (file_opt opts) (\<not> noMinify opts)] (?st1\<lparr>files := fs'\<rparr>)"
  let ?st3 = "emit [SpinnerStart ''Logging In''] (emit [SpinnerSucceed ''Built''] ?st2)"
  have b: "buildStage w opts ?st1 = (Inr out, ?st2)"
    using build by (simp add: buildStage_def Let_def)
  have a: "authStage w opts (emit [SpinnerSucceed ''Built''] ?st2) = Some (Returned session, ?st3)"
    using cached parsed valid by (simp add: authStage_def Let_def getExistingSession_def)
  from entry obtain src where src: "files st (file_opt opts) = Some src" by auto
  have run: "buildAndSync w opts st = Some (syncStage w out session ?st3)"
    using src b a by (simp add: buildAndSync_def Let_def del: buildStage_simps)
  obtain tl where tl: "trace (snd (syncStage w out session ?st3)) =
       trace ?st3 @ [SpinnerSucceed (''Logged in as '' @ chalk w ''green.bold'' (user_id session)),
                 SpinnerStart ''Syncing'', GetGamesCall (user_id session)] @ tl"
      "list_all (usesSession session) tl" "\<not> list_ex isLoginCall tl"
    using syncStage_trace [of w out session ?st3] by blast
  have em: "emitted st (snd (syncStage w out session ?st3)) =
      [SpinnerStart ''Building'', BuildCall (file_opt opts) (\<not> noMinify opts),
       SpinnerSucceed ''Built'', SpinnerStart ''Logging In'',
       SpinnerSucceed (''Logged in as '' @ chalk w ''green.bold'' (user_id session)),
       SpinnerStart ''Syncing'', GetGamesCall (user_id session)] @ tl"
    using tl(1) by (simp add: emitted_def)
  show ?thesis
    apply (rule exI [of _ "fst (syncStage w out session ?st3)"])
    apply (rule exI [of _ "snd (syncStage w out session ?st3)"])
    using run tl(2,3) by (simp add: em)
qed

theorem C6_cached_session_no_login_witness:
  "files exCached (file_opt exOpts) \<noteq> None \<and>
   Bun_build exWorld (file_opt exOpts) (\<not> noMinify exOpts) (files exCached) =
     (Inr [''./dist/index.js''], (files exCached)(''./dist/index.js'' \<mapsto> ''bundle'')) \<and>
   ((files exCached)(''./dist/index.js'' \<mapsto> ''bundle'')) (SESSION_FILE_PATH exWorld) =
     Some (exStringify exSession) \<and>
   file_json exWorld (exStringify exSession) = Inr exSession \<and>
   sync_verifySession exWorld exSession \<and>
   (\<exists>r st'. buildAndSync exWorld exOpts exCached = Some (r, st') \<and>
      loginCalls st' = loginCalls exCached \<and>
      \<not> list_ex isLoginCall (emitted exCached st') \<and>
      GetGamesCall ''alice'' \<in> set (emitted exCached st') \<and>
      list_all (usesSession exSession) (emitted exCached st'))"
proof -
  have entry: "files exCached (file_opt exOpts) \<noteq> None"
    by (simp add: ex_defs)
  have build: "Bun_build exWorld (file_opt exOpts) (\<not> noMinify exOpts) (files exCached) =
     (Inr [''./dist/index.js''], (files exCached)(''./dist/index.js'' \<mapsto> ''bundle''))"
    by (simp add: exWorld_def)
  have cached: "((files exCached)(''./dist/index.js'' \<mapsto> ''bundle'')) (SESSION_FILE_PATH exWorld) =
     Some (exStringify exSession)"
    by (simp add: ex_defs)
  have parsed: "file_json exWorld (exStringify exSession) = Inr exSession"
    by (simp add: exWorld_def)
  have valid: "sync_verifySession exWorld exSession"
    by (simp add: exWorld_def exSession_def)
  have "user_id exSession = ''alice''"
    by (simp add: exSession_def)
  with C6_cached_session_no_login [OF entry build cached parsed valid] entry build cached parsed valid
  show ?thesis by simp
qed

text \<open>
  C7. When \<open>getGames\<close> returns the empty list, the cycle reports the warning
  \<open>No current games.\<close>, does not call \<open>sendCode\<close>, and returns normally: no exception,
  no process exit. First part: a cycle whose build completes, whose authentication
  returns a session and whose list of games is empty does return, and after
  authentication it logs exactly the report of the identity, the call of \<open>getGames\<close> and
  the warning. Second part: every cycle that ends with a call of \<open>getGames\<close> in its log
  that was answered by the empty list returned normally, with the warning as its last
  report and no call of \<open>sendCode\<close>.
\<close>

theorem C7_no_games_warns:
  "(files st (file_opt opts) \<noteq> None \<and>
    fst (Bun_build w (file_opt opts) (\<not> noMinify opts) (files st)) = Inr (distFile # outs) \<and>
    authStage w opts (afterBuild w opts st) = Some (Returned session, st3) \<and>
    sync_getGames w (user_id session) = Inr [] \<longrightarrow>
      (\<exists>st'. buildAndSync w opts st = Some (Returned (), st') \<and>
         emitted st3 st' =
           [SpinnerSucceed (''Logged in as '' @ chalk w ''green.bold'' (user_id session)),
            SpinnerStart ''Syncing'', GetGamesCall (user_id session),
            SpinnerWarn ''No current games.''] \<and>
         \<not> list_ex isSendCode (emitted st st'))) \<and>
   (buildAndSync w opts st = Some (out, st'') \<and>
    GetGamesCall uid \<in> set (emitted st st'') \<and> sync_getGames w uid = Inr [] \<longrightarrow>
      out = Returned () \<and>
      last (emitted st st'') = SpinnerWarn ''No current games.'' \<and>
      \<not> list_ex isSendCode (emitted st st''))"
proof -
  have every: "out = Returned () \<and>
      last (emitted st st'') = SpinnerWarn ''No current games.'' \<and>
      \<not> list_ex isSendCode (emitted st st'')"
    if run: "buildAndSync w opts st = Some (out, st'')"
      and called: "GetGamesCall uid \<in> set (emitted st st'')"
      and empty: "sync_getGames w uid = Inr []"
    for out st'' uid
    using run
  proof (cases rule: buildAndSync_cases)
    case missing
    with called show ?thesis by simp
  next
    case (failed e)
    with called show ?thesis by simp
  next
    case (unauthenticated d evs)
    with called authEvents_not_sync(2) [OF unauthenticated(5), of uid] show ?thesis
      by (simp add: builtEvents_def)
  next
    case (authenticated d s st4 evs)
    have pre: "\<not> list_ex isSendCode (builtEvents opts @ evs)"
              "GetGamesCall uid \<notin> set (builtEvents opts @ evs)"
      using authEvents_not_sync [OF authenticated(5)] by (simp_all add: builtEvents_def)
    show ?thesis
    proof (cases "uid = user_id s")
      case True
      with empty authenticated(4,6) pre show ?thesis
        by (auto simp: syncStage_def Let_def emitted_def)
    next
      case False
      with called authenticated(4,6) pre show ?thesis
        by (auto simp: syncStage_def Let_def emitted_def
                 split: sum.splits option.splits if_splits)
    qed
  qed
  have total: "\<exists>st'. buildAndSync w opts st = Some (Returned (), st') \<and>
         emitted st3 st' =
           [SpinnerSucceed (''Logged in as '' @ chalk w ''green.bold'' (user_id session)),
            SpinnerStart ''Syncing'', GetGamesCall (user_id session),
            SpinnerWarn ''No current games.''] \<and>
         \<not> list_ex isSendCode (emitted st st')"
    if entry: "files st (file_opt opts) \<noteq> None"
      and build: "fst (Bun_build w (file_opt opts) (\<not> noMinify opts) (files st))
                    = Inr (distFile # outs)"
      and auth: "authStage w opts (afterBuild w opts st) = Some (Returned session, st3)"
      and empty: "sync_getGames w (user_id session) = Inr []"
  proof -
    let ?st' = "emit [SpinnerSucceed (''Logged in as '' @ chalk w ''green.bold'' (user_id session)),
            SpinnerStart ''Syncing'', GetGamesCall (user_id session),
            SpinnerWarn ''No current games.''] st3"
    have run: "buildAndSync w opts st = Some (Returned (), ?st')"
      using sync_reached(1) [OF entry build auth] syncStage_no_games [OF empty] by simp
    obtain evs where "trace st3 = trace st @ builtEvents opts @ evs"
      using sync_reached(2) [OF entry build auth] by blast
    then have "GetGamesCall (user_id session) \<in> set (emitted st ?st')"
      by (simp add: emitted_def)
    from every [OF run this empty] run show ?thesis
      by simp
  qed
  from total every show ?thesis by blast
qed

theorem C7_no_games_warns_witness:
  "files exCached (file_opt exOpts) \<noteq> None \<and>
   fst (Bun_build exNoGames (file_opt exOpts) (\<not> noMinify exOpts) (files exCached)) =
     Inr [''./dist/index.js''] \<and>
   authStage exNoGames exOpts (afterBuild exNoGames exOpts exCached) =
     Some (Returned exSession,
           emit [SpinnerStart ''Logging In''] (afterBuild exNoGames exOpts exCached)) \<and>
   sync_getGames exNoGames (user_id exSession) = Inr [] \<and>
   (\<exists>st'. buildAndSync exNoGames exOpts exCached = Some (Returned (), st') \<and>
      emitted (emit [SpinnerStart ''Logging In''] (afterBuild exNoGames exOpts exCached)) st' =
        [SpinnerSucceed ''Logged in as alice'', SpinnerStart ''Syncing'', GetGamesCall ''alice'',
         SpinnerWarn ''No current games.''] \<and>
      GetGamesCall ''alice'' \<in> set (emitted exCached st') \<and>
      last (emitted exCached st') = SpinnerWarn ''No current games.'' \<and>
      \<not> list_ex isSendCode (emitted exCached st'))"
proof -
  let ?st3 = "emit [SpinnerStart ''Logging In''] (afterBuild exNoGames exOpts exCached)"
  have empty: "sync_getGames exNoGames (user_id exSession) = Inr []"
    "sync_getGames exNoGames ''alice'' = Inr []"
    by (simp_all add: ex_defs)
  have more: "chalk exNoGames = (\<lambda>style s. s)" "user_id exSession = ''alice''"
    by (simp_all add: ex_defs)
  have "\<exists>st'. buildAndSync exNoGames exOpts exCached = Some (Returned (), st') \<and>
      emitted ?st3 st' =
        [SpinnerSucceed ''Logged in as alice'', SpinnerStart ''Syncing'', GetGamesCall ''alice'',
         SpinnerWarn ''No current games.'']"
    using C7_no_games_warns
      [of exCached exOpts exNoGames "''./dist/index.js''" "[]" exSession ?st3,
        THEN conjunct1]
      ex_cached_auth(1) ex_nogames_auth empty(1)
    by (auto simp: more)
  then obtain st' where run: "buildAndSync exNoGames exOpts exCached = Some (Returned (), st')"
    and after: "emitted ?st3 st' =
        [SpinnerSucceed ''Logged in as alice'', SpinnerStart ''Syncing'', GetGamesCall ''alice'',
         SpinnerWarn ''No current games.'']"
    by blast
  from ex_nogames_run run
  have called: "GetGamesCall ''alice'' \<in> set (emitted exCached st')"
    by auto
  have "last (emitted exCached st') = SpinnerWarn ''No current games.''"
    "\<not> list_ex isSendCode (emitted exCached st')"
    using C7_no_games_warns
      [of exCached exOpts exNoGames _ _ _ _ "Returned ()" st' "''alice''", THEN conjunct2]
      run called empty(2)
    by simp_all
  with ex_cached_auth(1) ex_nogames_auth empty(1) run after called show ?thesis
    by blast
qed




text \<open>
  C9. \<open>logout\<close> succeeds exactly when the session file is there; it then deletes the
  file, and \<open>getExistingSession\<close> on the state it leaves returns \<open>null\<close>.
\<close>

theorem C9_logout_then_load_absent:
  "(files st (SESSION_FILE_PATH w) \<noteq> None \<longrightarrow>
      (\<exists>st'. logout w st = (Returned (), st') \<and>
         files st' (SESSION_FILE_PATH w) = None \<and>
         getExistingSession w st' = Returned None)) \<and>
   (logout w st = (Returned (), st'') \<longrightarrow>
      files st (SESSION_FILE_PATH w) \<noteq> None \<and>
      files st'' (SESSION_FILE_PATH w) = None \<and>
      getExistingSession w st'' = Returned None)"
  by (auto simp: logout_def unlinkSync_def getExistingSession_def Let_def
           split: option.splits)

theorem C9_logout_then_load_absent_witness:
  "files exCached (SESSION_FILE_PATH exWorld) \<noteq> None \<and>
   getExistingSession exWorld exCached = Returned (Some exSession) \<and>
   (\<exists>st'. logout exWorld exCached = (Returned (), st') \<and>
      files st' (SESSION_FILE_PATH exWorld) = None \<and>
      getExistingSession exWorld st' = Returned None)"
proof -
  have there: "files exCached (SESSION_FILE_PATH exWorld) \<noteq> None"
    by (simp add: ex_defs)
  have before: "getExistingSession exWorld exCached = Returned (Some exSession)"
    by (simp add: ex_defs getExistingSession_def)
  from C9_logout_then_load_absent [of exCached exWorld] there before show ?thesis
    by blast
qed

text \<open>
  C10. The build stage lets no exception out. When the entrypoint exists and the bundler
  throws, or returns an empty list of outputs so that \<open>outputs[0].path\<close> throws a
  \<open>TypeError\<close>, the exception is caught: the cycle reports \<open>Build failed: Unexpected error\<close>,
  prints the exception and ends the process with exit code 1.
\<close>

theorem C10_build_exception_exits_1:
  assumes "files st (file_opt opts) \<noteq> None"
    and "fst (Bun_build w (file_opt opts) (\<not> noMinify opts) (files st)) = Inl e \<or>
         fst (Bun_build w (file_opt opts) (\<not> noMinify opts) (files st)) = Inr [] \<and> e = TypeError"
  shows "\<exists>st'. buildAndSync w opts st = Some (Exited 1, st') \<and>
           emitted st st' =
             [SpinnerStart ''Building'', BuildCall (file_opt opts) (\<not> noMinify opts),
              SpinnerFail (chalk w ''red.bold'' ''Build failed:'' @ '' Unexpected error''),
              ConsoleError (Some e)]"
proof -
  from assms(1) obtain src where src: "files st (file_opt opts) = Some src" by auto
  from assms(2) have "buildError w opts st = Some e"
    by (auto simp: buildError_def)
  from buildAndSync_build_failed [OF src this] show ?thesis
    by auto
qed

theorem C10_build_exception_exits_1_witness:
  "files exState (file_opt exOpts) \<noteq> None \<and>
   fst (Bun_build exNoOutputs (file_opt exOpts) (\<not> noMinify exOpts) (files exState)) = Inr [] \<and>
   (\<exists>st'. buildAndSync exNoOutputs exOpts exState = Some (Exited 1, st') \<and>
      emitted exState st' =
        [SpinnerStart ''Building'', BuildCall ''src/index.ts'' True,
         SpinnerFail ''Build failed: Unexpected error'', ConsoleError (Some TypeError)]) \<and>
   fst (Bun_build exThrowingBuild (file_opt exOpts) (\<not> noMinify exOpts) (files exState)) =
     Inl (External ''bundle failed'') \<and>
   (\<exists>st'. buildAndSync exThrowingBuild exOpts exState = Some (Exited 1, st') \<and>
      emitted exState st' =
        [SpinnerStart ''Building'', BuildCall ''src/index.ts'' True,
         SpinnerFail ''Build failed: Unexpected error'',
         ConsoleError (Some (External ''bundle failed''))])"
proof -
  have entry: "files exState (file_opt exOpts) \<noteq> None"
    by (simp add: ex_defs)
  have empty: "fst (Bun_build exNoOutputs (file_opt exOpts) (\<not> noMinify exOpts) (files exState)) = Inr []"
    by (simp add: ex_defs)
  have throws: "fst (Bun_build exThrowingBuild (file_opt exOpts) (\<not> noMinify exOpts) (files exState)) =
     Inl (External ''bundle failed'')"
    by (simp add: ex_defs)
  have more: "chalk exNoOutputs = (\<lambda>style s. s)" "chalk exThrowingBuild = (\<lambda>style s. s)"
    "file_opt exOpts = ''src/index.ts''" "noMinify exOpts = False"
    by (simp_all add: ex_defs)
  from C10_build_exception_exits_1 [of exState exOpts exNoOutputs TypeError] entry empty
  have one: "\<exists>st'. buildAndSync exNoOutputs exOpts exState = Some (Exited 1, st') \<and>
      emitted exState st' =
        [SpinnerStart ''Building'', BuildCall ''src/index.ts'' True,
         SpinnerFail ''Build failed: Unexpected error'', ConsoleError (Some TypeError)]"
    by (simp add: more)
  from C10_build_exception_exits_1 [of exState exOpts exThrowingBuild "External ''bundle failed''"]
    entry throws
  have two: "\<exists>st'. buildAndSync exThrowingBuild exOpts exState = Some (Exited 1, st') \<and>
      emitted exState st' =
        [SpinnerStart ''Building'', BuildCall ''src/index.ts'' True,
         SpinnerFail ''Build failed: Unexpected error'',
         ConsoleError (Some (External ''bundle failed''))]"
    by (simp add: more)
  from entry empty throws one two show ?thesis by blast
qed

end
